theory Spec2Isabelle
  imports Main "HOL-Library.Word"
begin

section \<open>JavaScript strings\<close>

text \<open>
  A JavaScript string is a sequence of UTF-16 code units and \<open>.length\<close> counts code
  units, so a string is a list of 16-bit words. \<open>utf16\<close> embeds an ASCII literal.
\<close>

type_synonym jsstring = "16 word list"

definition utf16 :: "string \<Rightarrow> jsstring" where
  "utf16 s = map (\<lambda>c. of_nat (of_char c)) s"

text \<open>
  \<open>String.prototype.trim\<close> removes WhiteSpace and LineTerminator code units from both
  ends: TAB, LF, VT, FF, CR, SP, NBSP, U+1680, U+2000..U+200A, U+2028, U+2029, U+202F,
  U+205F, U+3000 and U+FEFF.
\<close>

definition is_white_space :: "16 word \<Rightarrow> bool" where
  "is_white_space c \<longleftrightarrow>
     c = 0x0009 \<or> c = 0x000A \<or> c = 0x000B \<or> c = 0x000C \<or> c = 0x000D \<or> c = 0x0020 \<or>
     c = 0x00A0 \<or> c = 0x1680 \<or> (0x2000 \<le> c \<and> c \<le> 0x200A) \<or> c = 0x2028 \<or>
     c = 0x2029 \<or> c = 0x202F \<or> c = 0x205F \<or> c = 0x3000 \<or> c = 0xFEFF"

definition trim :: "jsstring \<Rightarrow> jsstring" where
  "trim s = rev (dropWhile is_white_space (rev (dropWhile is_white_space s)))"

text \<open>
  \<open>s.split(',')\<close>: the pieces between the separators, in order; a string without a
  separator (the empty string too) gives one piece.
\<close>

fun split :: "16 word \<Rightarrow> jsstring \<Rightarrow> jsstring list" where
  "split d [] = [[]]"
| "split d (c # cs) =
     (if c = d then [] # split d cs
      else (case split d cs of
              [] \<Rightarrow> [[c]]
            | t # ts \<Rightarrow> (c # t) # ts))"


section \<open>Schema validation (zod)\<close>

text \<open>
  A failed \<open>safeParse\<close> carries a list of issues, each with the path of the field and
  a message. A message is the text the schema gives, or the library's default when the
  schema gives none.
\<close>

datatype message = Custom jsstring | Library_default

record issue =
  path :: string
  message :: message

text \<open>
  \<open>z.string().trim().min(lo, m1).max(hi, m2)\<close> at field \<open>p\<close>: the checks run in the
  order written, so the length checks see the trimmed string.
\<close>

definition string_min :: "string \<Rightarrow> nat \<Rightarrow> message \<Rightarrow> jsstring \<Rightarrow> issue list" where
  "string_min p lo m s = (if length s < lo then [\<lparr>path = p, message = m\<rparr>] else [])"

definition string_max :: "string \<Rightarrow> nat \<Rightarrow> message \<Rightarrow> jsstring \<Rightarrow> issue list" where
  "string_max p hi m s = (if length s > hi then [\<lparr>path = p, message = m\<rparr>] else [])"

section \<open>CommentsSection: the comment schema\<close>

text \<open>The messages of \<open>commentSchema\<close>; U+00ED and U+00E1 are the accented letters.\<close>

definition msg_nome_min :: message where
  "msg_nome_min = Custom (utf16 ''Nome deve ter no m'' @ [0x00ED] @ utf16 ''nimo 2 caracteres'')"

definition msg_nome_max :: message where
  "msg_nome_max = Custom (utf16 ''Nome muito longo'')"

definition msg_comentario_min :: message where
  "msg_comentario_min =
     Custom (utf16 ''Coment'' @ [0x00E1] @ utf16 ''rio deve ter no m'' @ [0x00ED]
             @ utf16 ''nimo 5 caracteres'')"

definition msg_comentario_max :: message where
  "msg_comentario_max = Custom (utf16 ''Coment'' @ [0x00E1] @ utf16 ''rio muito longo'')"

definition author_name_issues :: "jsstring \<Rightarrow> issue list" where
  "author_name_issues s =
     string_min ''author_name'' 2 msg_nome_min (trim s)
     @ string_max ''author_name'' 50 msg_nome_max (trim s)"

definition content_issues :: "jsstring \<Rightarrow> issue list" where
  "content_issues s =
     string_min ''content'' 5 msg_comentario_min (trim s)
     @ string_max ''content'' 1000 msg_comentario_max (trim s)"

text \<open>
  \<open>commentSchema.safeParse({author_name, content})\<close>: the issues of the two fields in
  the order of the schema's keys; the parse succeeds when there is none.
\<close>

definition commentSchema :: "jsstring \<Rightarrow> jsstring \<Rightarrow> issue list" where
  "commentSchema name body = author_name_issues name @ content_issues body"

definition commentSchema_success :: "jsstring \<Rightarrow> jsstring \<Rightarrow> bool" where
  "commentSchema_success name body \<longleftrightarrow> commentSchema name body = []"

section \<open>CommentsSection: state and handlers\<close>

record comment =
  comment_id :: string
  author_name :: jsstring
  comment_content :: jsstring
  created_at :: string

type_synonym store_error = string

text \<open>The calls the component makes on the store client.\<close>

datatype request =
    Select_comments string
      \<comment> \<open>\<open>from('comments').select(...).eq('article_id', a).order('created_at', desc)\<close>\<close>
  | Insert_comment string jsstring jsstring
      \<comment> \<open>\<open>from('comments').insert([{article_id, author_name, content}])\<close>\<close>

datatype toast =
    Toast_enviado  \<comment> \<open>the success toast of a submitted comment\<close>
  | Toast_erro     \<comment> \<open>the destructive toast of a failed submission\<close>

text \<open>A realtime channel of the store client, as \<open>.channel(name).on(...)\<close> builds it.\<close>

record channel =
  handle :: nat
  channel_name :: string
  event :: string
  table :: string
  row_filter :: string

text \<open>
  The state of one \<open>CommentsSection\<close>: its six \<open>useState\<close> cells, and what it has
  done to the outside: the store calls issued (oldest first), the toasts shown, and the
  channels open on the store client.
\<close>

record comments_section =
  comments :: "comment list"
  loading :: bool
  submitting :: bool
  authorName :: jsstring
  content :: jsstring
  errors :: "string \<rightharpoonup> message"
  requests :: "request list"
  toasts :: "toast list"
  channels :: "channel list"
  next_handle :: nat

definition initial :: comments_section where
  "initial = \<lparr>comments = [], loading = True, submitting = False, authorName = [],
     content = [], errors = Map.empty, requests = [], toasts = [], channels = [],
     next_handle = 0\<rparr>"

subsection \<open>The realtime handler\<close>

text \<open>\<open>(payload) => setComments(prev => [payload.new, ...prev])\<close>\<close>

definition on_insert :: "comment \<Rightarrow> comments_section \<Rightarrow> comments_section" where
  "on_insert newComment st = st\<lparr>comments := newComment # comments st\<rparr>"

subsection \<open>fetchComments\<close>

text \<open>
  The function issues the query and suspends; \<open>fetchComments_done\<close> is what runs when
  the store answers. The answer is an error, or the rows (\<open>data\<close> may be null).
\<close>

definition fetchComments_start :: "string \<Rightarrow> comments_section \<Rightarrow> comments_section" where
  "fetchComments_start articleId st =
     st\<lparr>requests := requests st @ [Select_comments articleId]\<rparr>"

definition fetchComments_done ::
  "store_error + comment list option \<Rightarrow> comments_section \<Rightarrow> comments_section" where
  "fetchComments_done response st =
     (case response of
        Inl error \<Rightarrow> st\<lparr>loading := False\<rparr>
      | Inr data \<Rightarrow>
          st\<lparr>comments := (case data of None \<Rightarrow> [] | Some rows \<Rightarrow> rows),
             loading := False\<rparr>)"

definition fetchComments ::
  "string \<Rightarrow> store_error + comment list option \<Rightarrow> comments_section \<Rightarrow> comments_section" where
  "fetchComments articleId response st =
     fetchComments_done response (fetchComments_start articleId st)"

subsection \<open>handleSubmit\<close>

text \<open>
  \<open>validation.error.errors.forEach(err => newErrors[err.path[0]] = err.message)\<close>: a
  later issue of the same field overwrites an earlier one.
\<close>

definition errors_of :: "issue list \<Rightarrow> (string \<rightharpoonup> message)" where
  "errors_of issues = fold (\<lambda>err newErrors. newErrors(path err \<mapsto> message err)) issues Map.empty"

text \<open>
  Up to the \<open>await\<close>: clear the errors, validate, and either store the field errors and
  return, or set \<open>submitting\<close> and issue the insert. The flag tells whether the insert
  was issued.
\<close>

definition handleSubmit_start ::
  "string \<Rightarrow> comments_section \<Rightarrow> comments_section \<times> bool" where
  "handleSubmit_start articleId st =
     (let validation = commentSchema (authorName st) (content st) in
      if validation \<noteq> [] then (st\<lparr>errors := errors_of validation\<rparr>, False)
      else (st\<lparr>errors := Map.empty, submitting := True,
               requests := requests st
                 @ [Insert_comment articleId (trim (authorName st)) (trim (content st))]\<rparr>,
            True))"

text \<open>After the \<open>await\<close>: the store's answer is an error or none.\<close>

definition handleSubmit_done :: "store_error option \<Rightarrow> comments_section \<Rightarrow> comments_section" where
  "handleSubmit_done error st =
     (case error of
        None \<Rightarrow> st\<lparr>authorName := [], content := [], toasts := toasts st @ [Toast_enviado],
                   submitting := False\<rparr>
      | Some e \<Rightarrow> st\<lparr>toasts := toasts st @ [Toast_erro], submitting := False\<rparr>)"

definition handleSubmit ::
  "string \<Rightarrow> store_error option \<Rightarrow> comments_section \<Rightarrow> comments_section" where
  "handleSubmit articleId error st =
     (case handleSubmit_start articleId st of
        (st', True) \<Rightarrow> handleSubmit_done error st'
      | (st', False) \<Rightarrow> st')"

subsection \<open>What reaches the cache\<close>

text \<open>
  The comment cache is written by the realtime handler and by the completion of a
  fetch, in whatever order the store delivers them.
\<close>

datatype delivery =
    Live comment
  | Fetched "store_error + comment list option"

fun deliver :: "delivery \<Rightarrow> comments_section \<Rightarrow> comments_section" where
  "deliver (Live c) st = on_insert c st"
| "deliver (Fetched response) st = fetchComments_done response st"

definition deliver_all :: "delivery list \<Rightarrow> comments_section \<Rightarrow> comments_section" where
  "deliver_all ds st = fold deliver ds st"

definition entries_with :: "string \<Rightarrow> comment list \<Rightarrow> nat" where
  "entries_with i cs = length (filter (\<lambda>c. comment_id c = i) cs)"

subsection \<open>The subscription effect\<close>

text \<open>
  The body of \<open>useEffect(..., [articleId])\<close>: start the fetch, then build a channel
  named \<open>comments-realtime\<close> for INSERT events on \<open>comments\<close> filtered by the article,
  and subscribe it. The effect returns its cleanup, which closes over the channel: the
  model returns the channel's handle.
\<close>

definition subscription :: "nat \<Rightarrow> string \<Rightarrow> channel" where
  "subscription h articleId =
     \<lparr>handle = h, channel_name = ''comments-realtime'', event = ''INSERT'',
      table = ''comments'', row_filter = ''article_id=eq.'' @ articleId\<rparr>"

definition effect :: "string \<Rightarrow> comments_section \<Rightarrow> comments_section \<times> nat" where
  "effect articleId st =
     (let st1 = fetchComments_start articleId st;
          h = next_handle st1
      in (st1\<lparr>channels := channels st1 @ [subscription h articleId],
              next_handle := Suc h\<rparr>, h))"

text \<open>\<open>() => supabase.removeChannel(channel)\<close>\<close>

definition cleanup :: "nat \<Rightarrow> comments_section \<Rightarrow> comments_section" where
  "cleanup h st = st\<lparr>channels := filter (\<lambda>c. handle c \<noteq> h) (channels st)\<rparr>"

text \<open>
  What React does with an effect that has dependencies \<open>[articleId]\<close>: it runs the
  effect when the component mounts; when a render brings another \<open>articleId\<close> it runs
  the pending cleanup and then the effect again; when the component unmounts it runs the
  pending cleanup. A mounted instance remembers the article of its last effect and the
  handle its cleanup will close.
\<close>

datatype happening =
    Mount string
  | Render string
  | Unmount
  | Delivery delivery
  | Submit "store_error option"

type_synonym mounted = "(string \<times> nat) option"

fun react :: "happening \<Rightarrow> mounted \<times> comments_section \<Rightarrow> mounted \<times> comments_section" where
  "react (Mount a) (None, st) = (case effect a st of (st', h) \<Rightarrow> (Some (a, h), st'))"
| "react (Mount a) (Some i, st) = (Some i, st)"
| "react (Render a) (Some (a0, h), st) =
     (if a = a0 then (Some (a0, h), st)
      else (case effect a (cleanup h st) of (st', h') \<Rightarrow> (Some (a, h'), st')))"
| "react (Render a) (None, st) = (None, st)"
| "react Unmount (Some (a0, h), st) = (None, cleanup h st)"
| "react Unmount (None, st) = (None, st)"
| "react (Delivery d) (Some i, st) = (Some i, deliver d st)"
| "react (Delivery d) (None, st) = (None, st)"
| "react (Submit r) (Some (a0, h), st) = (Some (a0, h), handleSubmit a0 r st)"
| "react (Submit r) (None, st) = (None, st)"

definition life :: "happening list \<Rightarrow> mounted \<times> comments_section" where
  "life hs = fold react hs (None, initial)"

text \<open>
  The state of a stream is tidy when the client holds no channel of an unmounted
  component and exactly the subscription of a mounted one.
\<close>

definition tidy :: "mounted \<times> comments_section \<Rightarrow> bool" where
  "tidy s \<longleftrightarrow> (case fst s of None \<Rightarrow> channels (snd s) = []
      | Some (a, h) \<Rightarrow> channels (snd s) = [subscription h a])"

section \<open>ProjectsManager: the project cache\<close>

text \<open>
  \<open>project_fields\<close> is what the form hands to \<open>onSave\<close>; a \<open>project\<close> row adds the id
  and the timestamps.
\<close>

record project_fields =
  title :: jsstring
  description :: jsstring
  icon :: jsstring
  technologies :: "jsstring list"
  demo_url :: "jsstring option"
  repo_url :: "jsstring option"
  sort_order :: int
  is_published :: bool

record project = project_fields +
  project_id :: string
  project_created_at :: string
  project_updated_at :: string

datatype store_call =
    Select_projects            \<comment> \<open>\<open>from('projects').select('*').order('sort_order')\<close>\<close>
  | Delete_project string      \<comment> \<open>\<open>from('projects').delete().eq('id', id)\<close>\<close>

datatype manager_toast =
    Toast_carregar_erro   \<comment> \<open>the projects could not be loaded\<close>
  | Toast_excluido        \<comment> \<open>the project was deleted\<close>
  | Toast_excluir_erro    \<comment> \<open>the project could not be deleted\<close>

record projects_manager =
  projects :: "project list"
  manager_loading :: bool
  editingProject :: "project option"
  isCreating :: bool
  store_calls :: "store_call list"
  manager_toasts :: "manager_toast list"

text \<open>
  A row of the \<open>projects\<close> table with the given id, title and description, its other
  columns as the table's defaults give them (no technologies, the folder icon, no URLs,
  sort order 0, published).
\<close>

definition project_row :: "string \<Rightarrow> jsstring \<Rightarrow> jsstring \<Rightarrow> project" where
  "project_row id' t d =
     \<lparr>title = t, description = d, icon = [0xD83D, 0xDCC1], technologies = [],
      demo_url = None, repo_url = None, sort_order = 0, is_published = True,
      project_id = id', project_created_at = ''2024-01-15T00:00:00Z'',
      project_updated_at = ''2024-01-15T00:00:00Z''\<rparr>"

subsection \<open>fetchProjects\<close>

definition fetchProjects_start :: "projects_manager \<Rightarrow> projects_manager" where
  "fetchProjects_start st = st\<lparr>store_calls := store_calls st @ [Select_projects]\<rparr>"

definition fetchProjects_done ::
  "store_error + project list option \<Rightarrow> projects_manager \<Rightarrow> projects_manager" where
  "fetchProjects_done response st =
     (case response of
        Inl error \<Rightarrow>
          st\<lparr>manager_toasts := manager_toasts st @ [Toast_carregar_erro],
             manager_loading := False\<rparr>
      | Inr data \<Rightarrow>
          st\<lparr>projects := (case data of None \<Rightarrow> [] | Some rows \<Rightarrow> rows),
             manager_loading := False\<rparr>)"

definition fetchProjects ::
  "store_error + project list option \<Rightarrow> projects_manager \<Rightarrow> projects_manager" where
  "fetchProjects response st = fetchProjects_done response (fetchProjects_start st)"

text \<open>The component as first rendered, and its mount effect, which calls \<open>fetchProjects\<close>.\<close>

definition manager_initial :: projects_manager where
  "manager_initial = \<lparr>projects = [], manager_loading = True, editingProject = None,
     isCreating = False, store_calls = [], manager_toasts = []\<rparr>"

definition ProjectsManager_mount :: "projects_manager \<Rightarrow> projects_manager" where
  "ProjectsManager_mount st = fetchProjects_start st"

subsection \<open>handleDelete\<close>

text \<open>
  Up to the \<open>await\<close>: ask for confirmation and, when it is given, issue the delete.
  The handler closes over the \<open>projects\<close> of the render it belongs to, and it is this
  list that it filters after the store has answered: the first part returns it.
\<close>

definition handleDelete_start ::
  "string \<Rightarrow> bool \<Rightarrow> projects_manager \<Rightarrow> projects_manager \<times> project list option" where
  "handleDelete_start id' confirmed st =
     (if \<not> confirmed then (st, None)
      else (st\<lparr>store_calls := store_calls st @ [Delete_project id']\<rparr>, Some (projects st)))"

definition handleDelete_done ::
  "string \<Rightarrow> project list \<Rightarrow> store_error option \<Rightarrow> projects_manager \<Rightarrow> projects_manager" where
  "handleDelete_done id' captured error st =
     (case error of
        None \<Rightarrow>
          st\<lparr>projects := filter (\<lambda>p. project_id p \<noteq> id') captured,
             manager_toasts := manager_toasts st @ [Toast_excluido]\<rparr>
      | Some e \<Rightarrow> st\<lparr>manager_toasts := manager_toasts st @ [Toast_excluir_erro]\<rparr>)"

definition handleDelete ::
  "string \<Rightarrow> bool \<Rightarrow> store_error option \<Rightarrow> projects_manager \<Rightarrow> projects_manager" where
  "handleDelete id' confirmed error st =
     (case handleDelete_start id' confirmed st of
        (st', None) \<Rightarrow> st'
      | (st', Some captured) \<Rightarrow> handleDelete_done id' captured error st')"

section \<open>Admin: the guard of the management page\<close>

text \<open>
  What the hook \<open>useAuth\<close> hands to a page. \<open>Admin\<close> takes the user, the loading flag
  and \<open>signOut\<close> from it, and leaves \<open>isAdmin\<close> unread.
\<close>

record user =
  user_id :: string
  email :: string

record auth =
  user :: "user option"
  auth_loading :: bool
  isAdmin :: bool

text \<open>
  What the page returns: the loading window, or the control panel, whose header shows
  \<open>user?.email\<close> and whose tabs open on \<open>projects\<close> with \<open>ProjectsManager\<close> inside.
\<close>

datatype admin_view =
    Loading_window
  | Control_panel "string option"

definition Admin :: "auth \<Rightarrow> admin_view" where
  "Admin a = (if auth_loading a then Loading_window else Control_panel (map_option email (user a)))"

text \<open>The page's effect: \<open>if (!loading && !user) navigate('/auth')\<close>.\<close>

definition Admin_navigate :: "auth \<Rightarrow> string option" where
  "Admin_navigate a = (if \<not> auth_loading a \<and> user a = None then Some ''/auth'' else None)"

text \<open>
  The store calls issued when a view is put on screen: the panel mounts
  \<open>ProjectsManager\<close>, the content of the tab it opens on, and the loading window mounts
  nothing that calls the store.
\<close>

definition mount_calls :: "admin_view \<Rightarrow> store_call list" where
  "mount_calls v =
     (case v of
        Loading_window \<Rightarrow> []
      | Control_panel e \<Rightarrow> store_calls (ProjectsManager_mount manager_initial))"

section \<open>ProjectForm: validation of a project draft\<close>













section \<open>ArticlePage: the public article view\<close>

text \<open>
  A row of the \<open>articles\<close> table; the page selects the columns of \<open>article\<close> from it.
\<close>

record article =
  article_id :: string
  article_title :: jsstring
  excerpt :: jsstring
  article_content :: "jsstring option"
  category :: jsstring
  read_time :: jsstring
  article_created_at :: string










section \<open>Properties\<close>

lemma string_min_Nil: "string_min p lo m s = [] \<longleftrightarrow> lo \<le> length s"
  by (simp add: string_min_def not_less)

lemma string_max_Nil: "string_max p hi m s = [] \<longleftrightarrow> length s \<le> hi"
  by (simp add: string_max_def not_less)

lemma author_name_issues_Nil:
  "author_name_issues s = [] \<longleftrightarrow> 2 \<le> length (trim s) \<and> length (trim s) \<le> 50"
  by (simp add: author_name_issues_def string_min_Nil string_max_Nil)

lemma content_issues_Nil:
  "content_issues s = [] \<longleftrightarrow> 5 \<le> length (trim s) \<and> length (trim s) \<le> 1000"
  by (simp add: content_issues_def string_min_Nil string_max_Nil)

text \<open>
  C3. The comment validator accepts an input pair exactly when the trimmed author name
  has between 2 and 50 code units and the trimmed content between 5 and 1000: the name
  field raises no issue exactly on lengths 2..50 (so 2 and 50 pass, 1 and 51 fail), and
  the content field raises no issue exactly on lengths 5..1000.
\<close>

theorem comment_validation_boundaries:
  "(author_name_issues name = [] \<longleftrightarrow> length (trim name) \<in> {2..50})
   \<and> (content_issues body = [] \<longleftrightarrow> length (trim body) \<in> {5..1000})
   \<and> (commentSchema_success name body \<longleftrightarrow>
        length (trim name) \<in> {2..50} \<and> length (trim body) \<in> {5..1000})"
  by (simp add: commentSchema_success_def commentSchema_def
      author_name_issues_Nil content_issues_Nil)

subsection \<open>The two scenarios of the comment form\<close>

lemma scenario_A: "commentSchema (utf16 ''Jo'') (utf16 ''Hello!'') = []"
  by (simp add: commentSchema_def author_name_issues_def content_issues_def string_min_def
      string_max_def trim_def utf16_def is_white_space_def)

lemma scenario_B:
  "commentSchema (utf16 ''J'') (utf16 ''Hi'') =
     [\<lparr>path = ''author_name'', message = msg_nome_min\<rparr>,
      \<lparr>path = ''content'', message = msg_comentario_min\<rparr>]"
  by (simp add: commentSchema_def author_name_issues_def content_issues_def string_min_def
      string_max_def trim_def utf16_def is_white_space_def)

subsection \<open>The error map of a failed validation\<close>

lemma dom_errors_of_aux:
  "dom (fold (\<lambda>err newErrors. newErrors(path err \<mapsto> message err)) issues m)
     = dom m \<union> path ` set issues"
  by (induction issues arbitrary: m) auto

lemma dom_errors_of: "dom (errors_of issues) = path ` set issues"
  by (simp add: errors_of_def dom_errors_of_aux)

text \<open>A field raises at most one issue: its two length checks exclude each other.\<close>

lemma author_name_issues_cases:
  "author_name_issues s = [] \<or>
   author_name_issues s = [\<lparr>path = ''author_name'', message = msg_nome_min\<rparr>] \<or>
   author_name_issues s = [\<lparr>path = ''author_name'', message = msg_nome_max\<rparr>]"
  by (simp add: author_name_issues_def string_min_def string_max_def)

lemma content_issues_cases:
  "content_issues s = [] \<or>
   content_issues s = [\<lparr>path = ''content'', message = msg_comentario_min\<rparr>] \<or>
   content_issues s = [\<lparr>path = ''content'', message = msg_comentario_max\<rparr>]"
  by (simp add: content_issues_def string_min_def string_max_def)

lemma distinct_paths_commentSchema: "distinct (map path (commentSchema name body))"
  using author_name_issues_cases [of name] content_issues_cases [of body]
  by (auto simp: commentSchema_def)

lemma paths_commentSchema:
  "path ` set (commentSchema name body) =
     (if author_name_issues name = [] then {} else {''author_name''})
     \<union> (if content_issues body = [] then {} else {''content''})"
  using author_name_issues_cases [of name] content_issues_cases [of body]
  by (auto simp: commentSchema_def)

text \<open>
  C4. When the form's \<open>{author_name, content}\<close> fails the schema, \<open>handleSubmit\<close>
  issues no store call, and the error map it stores has exactly the failing fields as
  keys, one entry per issue: \<open>author_name\<close> is a key exactly when its trimmed length is
  outside 2..50, \<open>content\<close> exactly when its trimmed length is outside 5..1000.
\<close>

theorem invalid_submission_blocked:
  assumes "\<not> commentSchema_success (authorName st) (content st)"
  shows "requests (handleSubmit articleId response st) = requests st
    \<and> dom (errors (handleSubmit articleId response st))
        = path ` set (commentSchema (authorName st) (content st))
    \<and> card (dom (errors (handleSubmit articleId response st)))
        = length (commentSchema (authorName st) (content st))
    \<and> (''author_name'' \<in> dom (errors (handleSubmit articleId response st))
        \<longleftrightarrow> length (trim (authorName st)) \<notin> {2..50})
    \<and> (''content'' \<in> dom (errors (handleSubmit articleId response st))
        \<longleftrightarrow> length (trim (content st)) \<notin> {5..1000})"
proof -
  let ?issues = "commentSchema (authorName st) (content st)"
  from assms have invalid: "?issues \<noteq> []"
    by (simp add: commentSchema_success_def)
  then have result: "handleSubmit articleId response st = st\<lparr>errors := errors_of ?issues\<rparr>"
    by (simp add: handleSubmit_def handleSubmit_start_def Let_def)
  have keys: "dom (errors (handleSubmit articleId response st)) = path ` set ?issues"
    by (simp add: result dom_errors_of)
  have "card (path ` set ?issues) = length ?issues"
    using distinct_paths_commentSchema [of "authorName st" "content st"]
    by (metis distinct_card length_map set_map)
  moreover have "''author_name'' \<in> path ` set ?issues
      \<longleftrightarrow> length (trim (authorName st)) \<notin> {2..50}"
    by (simp add: paths_commentSchema author_name_issues_Nil)
  moreover have "''content'' \<in> path ` set ?issues
      \<longleftrightarrow> length (trim (content st)) \<notin> {5..1000}"
    by (simp add: paths_commentSchema content_issues_Nil)
  ultimately show ?thesis
    using keys by (simp add: result)
qed

text \<open>The form holding \<open>{author_name: "J", content: "Hi"}\<close>: two errors, no store call.\<close>

theorem invalid_submission_blocked_witness:
  "\<not> commentSchema_success (utf16 ''J'') (utf16 ''Hi'')
   \<and> requests (handleSubmit ''a1'' None
        (initial\<lparr>authorName := utf16 ''J'', content := utf16 ''Hi''\<rparr>)) = []
   \<and> card (dom (errors (handleSubmit ''a1'' None
        (initial\<lparr>authorName := utf16 ''J'', content := utf16 ''Hi''\<rparr>)))) = 2
   \<and> dom (errors (handleSubmit ''a1'' None
        (initial\<lparr>authorName := utf16 ''J'', content := utf16 ''Hi''\<rparr>)))
       = {''author_name'', ''content''}"
proof -
  let ?st = "initial\<lparr>authorName := utf16 ''J'', content := utf16 ''Hi''\<rparr>"
  have invalid: "\<not> commentSchema_success (authorName ?st) (content ?st)"
    by (simp add: commentSchema_success_def scenario_B)
  from invalid_submission_blocked [OF invalid, of "''a1''" None]
  show ?thesis
    by (simp add: scenario_B commentSchema_success_def initial_def)
qed

text \<open>
  C5. The submit path never writes the comment cache: neither the part of
  \<open>handleSubmit\<close> before the store call nor the part after it changes \<open>comments\<close>,
  whatever the store answers; and a valid submission does issue the insert, with the
  trimmed fields.
\<close>

theorem submit_leaves_cache:
  "comments (fst (handleSubmit_start articleId st)) = comments st
   \<and> comments (handleSubmit_done response st) = comments st
   \<and> comments (handleSubmit articleId response st) = comments st
   \<and> (commentSchema_success (authorName st) (content st) \<longrightarrow>
        requests (handleSubmit articleId response st)
          = requests st @ [Insert_comment articleId (trim (authorName st)) (trim (content st))])"
  by (simp add: handleSubmit_def handleSubmit_start_def handleSubmit_done_def
      commentSchema_success_def Let_def split: option.splits)

text \<open>The form holding \<open>{author_name: "Jo", content: "Hello!"}\<close>, accepted by the store.\<close>

theorem submit_leaves_cache_witness:
  "commentSchema_success (utf16 ''Jo'') (utf16 ''Hello!'')
   \<and> requests (handleSubmit ''a1'' None
        (initial\<lparr>authorName := utf16 ''Jo'', content := utf16 ''Hello!''\<rparr>))
       = [Insert_comment ''a1'' (utf16 ''Jo'') (utf16 ''Hello!'')]
   \<and> comments (handleSubmit ''a1'' None
        (initial\<lparr>authorName := utf16 ''Jo'', content := utf16 ''Hello!''\<rparr>)) = []"
proof -
  let ?st = "initial\<lparr>authorName := utf16 ''Jo'', content := utf16 ''Hello!''\<rparr>"
  have valid: "commentSchema_success (authorName ?st) (content ?st)"
    by (simp add: commentSchema_success_def scenario_A)
  have trims: "trim (utf16 ''Jo'') = utf16 ''Jo''" "trim (utf16 ''Hello!'') = utf16 ''Hello!''"
    by (simp_all add: trim_def utf16_def is_white_space_def)
  from submit_leaves_cache [of "''a1''" ?st None] valid
  show ?thesis
    by (simp add: trims initial_def commentSchema_success_def scenario_A)
qed

subsection \<open>Live merge and fetch\<close>

text \<open>
  C1, as the code has it. The realtime handler prepends every comment it receives,
  whether or not the cache already holds one with that id, so the number of entries
  with an id grows by one at each delivery of that id; and a fetch that succeeds
  replaces the cache by the rows fetched, whatever was delivered before it.
\<close>

theorem live_merge_prepends_fetch_replaces:
  "comments (on_insert c st) = c # comments st
   \<and> entries_with i (comments (on_insert c st))
       = entries_with i (comments st) + (if comment_id c = i then 1 else 0)
   \<and> comments (deliver_all (ds @ [Fetched (Inr (Some rows))]) st) = rows
   \<and> entries_with i (comments (deliver_all (ds @ [Fetched (Inr (Some rows))]) st))
       = entries_with i rows"
  by (simp add: deliver_all_def fetchComments_done_def entries_with_def on_insert_def)

text \<open>
  A fetch that returns comment \<open>c1\<close>, then the live delivery of the same comment: the
  cache holds it twice.
\<close>

theorem live_merge_duplicate_counterexample:
  "comments (deliver_all
      [Fetched (Inr (Some [\<lparr>comment_id = ''c1'', author_name = utf16 ''Jo'',
          comment_content = utf16 ''Hello!'', created_at = ''2024-01-15''\<rparr>])),
       Live \<lparr>comment_id = ''c1'', author_name = utf16 ''Jo'',
          comment_content = utf16 ''Hello!'', created_at = ''2024-01-15''\<rparr>]
      initial)
    = [\<lparr>comment_id = ''c1'', author_name = utf16 ''Jo'',
          comment_content = utf16 ''Hello!'', created_at = ''2024-01-15''\<rparr>,
       \<lparr>comment_id = ''c1'', author_name = utf16 ''Jo'',
          comment_content = utf16 ''Hello!'', created_at = ''2024-01-15''\<rparr>]
   \<and> entries_with ''c1'' (comments (deliver_all
      [Fetched (Inr (Some [\<lparr>comment_id = ''c1'', author_name = utf16 ''Jo'',
          comment_content = utf16 ''Hello!'', created_at = ''2024-01-15''\<rparr>])),
       Live \<lparr>comment_id = ''c1'', author_name = utf16 ''Jo'',
          comment_content = utf16 ''Hello!'', created_at = ''2024-01-15''\<rparr>]
      initial)) = 2"
  by (simp add: deliver_all_def fetchComments_done_def on_insert_def entries_with_def
      initial_def)

subsection \<open>The subscription over the life of the component\<close>

lemma channels_deliver: "channels (deliver d st) = channels st"
  by (cases d) (simp_all add: on_insert_def fetchComments_done_def split: sum.splits)

lemma channels_handleSubmit: "channels (handleSubmit a r st) = channels st"
  by (simp add: handleSubmit_def handleSubmit_start_def handleSubmit_done_def Let_def
      split: option.splits)

lemma tidy_react: "tidy s \<Longrightarrow> tidy (react h s)"
proof (induction h s rule: react.induct)
qed (auto simp: tidy_def effect_def cleanup_def fetchComments_start_def Let_def
      subscription_def channels_deliver channels_handleSubmit)

lemma tidy_fold: "tidy s \<Longrightarrow> tidy (fold react hs s)"
  by (induction hs arbitrary: s) (simp_all add: tidy_react)

lemma tidy_life: "tidy (life hs)"
  unfolding life_def by (rule tidy_fold) (simp add: tidy_def initial_def)

lemma fst_react_Unmount: "fst (react Unmount s) = None"
proof (cases s)
  case (Pair i st)
  then show ?thesis by (cases i) auto
qed

text \<open>
  C9. Over every sequence of mounts, renders, unmounts, deliveries and submissions of a
  component, the client holds at most one channel: none while the component is
  unmounted, and while it is mounted exactly the one subscription its last effect
  opened, for INSERT events on \<open>comments\<close> filtered by its article id. Mounting opens
  that channel, and after an unmount no channel is left.
\<close>

theorem subscription_lifecycle:
  "length (channels (snd (life hs))) \<le> 1
   \<and> (case fst (life hs) of
         None \<Rightarrow> channels (snd (life hs)) = []
       | Some (a, h) \<Rightarrow> channels (snd (life hs)) = [subscription h a])
   \<and> event (subscription h' a') = ''INSERT''
   \<and> table (subscription h' a') = ''comments''
   \<and> row_filter (subscription h' a') = ''article_id=eq.'' @ a'
   \<and> life [Mount a'] = (Some (a', 0), snd (life [Mount a']))
   \<and> fst (life (hs @ [Unmount])) = None
   \<and> channels (snd (life (hs @ [Unmount]))) = []"
proof -
  have now: "tidy (life hs)" by (rule tidy_life)
  have after: "tidy (life (hs @ [Unmount]))" by (rule tidy_life)
  have gone: "fst (life (hs @ [Unmount])) = None"
    by (simp add: life_def fst_react_Unmount)
  from now have one: "length (channels (snd (life hs))) \<le> 1"
    by (auto simp: tidy_def split: option.splits)
  from after gone have none: "channels (snd (life (hs @ [Unmount]))) = []"
    by (simp add: tidy_def)
  have mount: "life [Mount a'] = (Some (a', 0), snd (life [Mount a']))"
    by (simp add: life_def effect_def Let_def initial_def fetchComments_start_def)
  from now one gone none mount show ?thesis
    by (simp add: tidy_def subscription_def)
qed

section \<open>Properties of the guard\<close>

text \<open>
  C2, as the code has it. Once the session has loaded, the page signals the redirect to
  the sign-in page exactly when there is no identity, and no redirect for an identity;
  it returns the control panel in every case, there being no view that denies; and
  neither the view nor the signal depends on the administrator flag.
\<close>

theorem gate_resolution:
  "\<not> auth_loading a \<Longrightarrow>
     (Admin_navigate a = Some ''/auth'' \<longleftrightarrow> user a = None)
     \<and> (user a \<noteq> None \<longrightarrow> Admin_navigate a = None)
     \<and> Admin a = Control_panel (map_option email (user a))
     \<and> Admin (a\<lparr>isAdmin := b\<rparr>) = Admin a
     \<and> Admin_navigate (a\<lparr>isAdmin := b\<rparr>) = Admin_navigate a"
  by (simp add: Admin_def Admin_navigate_def)


text \<open>A signed-in identity that is not an administrator.\<close>

theorem gate_resolution_witness:
  "\<not> auth_loading \<lparr>user = Some \<lparr>user_id = ''u1'', email = ''visitor@example.com''\<rparr>,
       auth_loading = False, isAdmin = False\<rparr>
   \<and> Admin_navigate \<lparr>user = Some \<lparr>user_id = ''u1'', email = ''visitor@example.com''\<rparr>,
       auth_loading = False, isAdmin = False\<rparr> = None
   \<and> Admin \<lparr>user = Some \<lparr>user_id = ''u1'', email = ''visitor@example.com''\<rparr>,
       auth_loading = False, isAdmin = False\<rparr> = Control_panel (Some ''visitor@example.com'')"
  using gate_resolution [of "\<lparr>user = Some \<lparr>user_id = ''u1'', email = ''visitor@example.com''\<rparr>,
       auth_loading = False, isAdmin = False\<rparr>" False]
  by simp


text \<open>
  No identity, session loaded: the page still returns the control panel, whose
  \<open>ProjectsManager\<close> fetches the projects when it mounts, and signals the redirect.
\<close>

theorem gate_fetch_counterexample:
  "Admin \<lparr>user = None, auth_loading = False, isAdmin = False\<rparr> = Control_panel None
   \<and> mount_calls (Admin \<lparr>user = None, auth_loading = False, isAdmin = False\<rparr>) = [Select_projects]
   \<and> Admin_navigate \<lparr>user = None, auth_loading = False, isAdmin = False\<rparr> = Some ''/auth''"
  by (simp add: Admin_def Admin_navigate_def mount_calls_def ProjectsManager_mount_def
      fetchProjects_start_def manager_initial_def)

section \<open>Properties of the project cache\<close>

text \<open>
  C6. A store error leaves the project cache as it was: \<open>fetchProjects\<close> does not
  write \<open>projects\<close> when the query fails, and \<open>handleDelete\<close> removes nothing when the
  delete fails.
\<close>

theorem store_failure_keeps_cache:
  "projects (fetchProjects_done (Inl e) st) = projects st
   \<and> projects (fetchProjects (Inl e) st) = projects st
   \<and> projects (handleDelete_done id' captured (Some e) st) = projects st
   \<and> projects (handleDelete id' confirmed (Some e) st) = projects st"
  by (simp add: fetchProjects_def fetchProjects_done_def fetchProjects_start_def
      handleDelete_def handleDelete_done_def handleDelete_start_def)

text \<open>
  A delete on its own: when nothing else writes the cache between the click and the
  store's answer, a confirmed delete that the store accepts leaves the prior cache
  without the rows of that id, and the only store call made is the delete itself. What
  the completion filters is the list of the render the handler belongs to.
\<close>

lemma handleDelete_alone:
  "projects (handleDelete id' True None st) = filter (\<lambda>p. project_id p \<noteq> id') (projects st)
   \<and> id' \<notin> project_id ` set (projects (handleDelete id' True None st))
   \<and> store_calls (handleDelete id' True None st) = store_calls st @ [Delete_project id']
   \<and> projects (handleDelete_done id' captured None st)
       = filter (\<lambda>p. project_id p \<noteq> id') captured"
  by (auto simp: handleDelete_def handleDelete_done_def handleDelete_start_def)

text \<open>
  C7. Two deletes in flight. The cache holds \<open>p1\<close>, \<open>p2\<close>, \<open>p3\<close>; the deletes of \<open>p1\<close>
  and of \<open>p2\<close> are both confirmed before the store answers either, so both handlers hold
  the list of three. The store accepts the delete of \<open>p1\<close> and the cache becomes
  \<open>p2\<close>, \<open>p3\<close>; it accepts the delete of \<open>p2\<close> and the cache becomes \<open>p1\<close>, \<open>p3\<close>: not
  the prior cache without \<open>p2\<close>, and the deleted \<open>p1\<close> is back, with no fetch made.
\<close>

theorem delete_in_flight_restores:
  "snd (handleDelete_start ''p1'' True
      (manager_initial\<lparr>manager_loading := False,
         projects := [project_row ''p1'' (utf16 ''One'') (utf16 ''first''),
                      project_row ''p2'' (utf16 ''Two'') (utf16 ''second''),
                      project_row ''p3'' (utf16 ''Three'') (utf16 ''third'')]\<rparr>))
    = Some [project_row ''p1'' (utf16 ''One'') (utf16 ''first''),
            project_row ''p2'' (utf16 ''Two'') (utf16 ''second''),
            project_row ''p3'' (utf16 ''Three'') (utf16 ''third'')]
   \<and> snd (handleDelete_start ''p2'' True (fst (handleDelete_start ''p1'' True
      (manager_initial\<lparr>manager_loading := False,
         projects := [project_row ''p1'' (utf16 ''One'') (utf16 ''first''),
                      project_row ''p2'' (utf16 ''Two'') (utf16 ''second''),
                      project_row ''p3'' (utf16 ''Three'') (utf16 ''third'')]\<rparr>))))
    = Some [project_row ''p1'' (utf16 ''One'') (utf16 ''first''),
            project_row ''p2'' (utf16 ''Two'') (utf16 ''second''),
            project_row ''p3'' (utf16 ''Three'') (utf16 ''third'')]
   \<and> projects (handleDelete_done ''p1''
        [project_row ''p1'' (utf16 ''One'') (utf16 ''first''),
         project_row ''p2'' (utf16 ''Two'') (utf16 ''second''),
         project_row ''p3'' (utf16 ''Three'') (utf16 ''third'')] None
      (fst (handleDelete_start ''p2'' True (fst (handleDelete_start ''p1'' True
      (manager_initial\<lparr>manager_loading := False,
         projects := [project_row ''p1'' (utf16 ''One'') (utf16 ''first''),
                      project_row ''p2'' (utf16 ''Two'') (utf16 ''second''),
                      project_row ''p3'' (utf16 ''Three'') (utf16 ''third'')]\<rparr>))))))
    = [project_row ''p2'' (utf16 ''Two'') (utf16 ''second''),
       project_row ''p3'' (utf16 ''Three'') (utf16 ''third'')]
   \<and> projects (handleDelete_done ''p2''
        [project_row ''p1'' (utf16 ''One'') (utf16 ''first''),
         project_row ''p2'' (utf16 ''Two'') (utf16 ''second''),
         project_row ''p3'' (utf16 ''Three'') (utf16 ''third'')] None
      (handleDelete_done ''p1''
        [project_row ''p1'' (utf16 ''One'') (utf16 ''first''),
         project_row ''p2'' (utf16 ''Two'') (utf16 ''second''),
         project_row ''p3'' (utf16 ''Three'') (utf16 ''third'')] None
      (fst (handleDelete_start ''p2'' True (fst (handleDelete_start ''p1'' True
      (manager_initial\<lparr>manager_loading := False,
         projects := [project_row ''p1'' (utf16 ''One'') (utf16 ''first''),
                      project_row ''p2'' (utf16 ''Two'') (utf16 ''second''),
                      project_row ''p3'' (utf16 ''Three'') (utf16 ''third'')]\<rparr>)))))))
    = [project_row ''p1'' (utf16 ''One'') (utf16 ''first''),
       project_row ''p3'' (utf16 ''Three'') (utf16 ''third'')]
   \<and> store_calls (handleDelete_done ''p2''
        [project_row ''p1'' (utf16 ''One'') (utf16 ''first''),
         project_row ''p2'' (utf16 ''Two'') (utf16 ''second''),
         project_row ''p3'' (utf16 ''Three'') (utf16 ''third'')] None
      (handleDelete_done ''p1''
        [project_row ''p1'' (utf16 ''One'') (utf16 ''first''),
         project_row ''p2'' (utf16 ''Two'') (utf16 ''second''),
         project_row ''p3'' (utf16 ''Three'') (utf16 ''third'')] None
      (fst (handleDelete_start ''p2'' True (fst (handleDelete_start ''p1'' True
      (manager_initial\<lparr>manager_loading := False,
         projects := [project_row ''p1'' (utf16 ''One'') (utf16 ''first''),
                      project_row ''p2'' (utf16 ''Two'') (utf16 ''second''),
                      project_row ''p3'' (utf16 ''Three'') (utf16 ''third'')]\<rparr>)))))))
    = [Delete_project ''p1'', Delete_project ''p2'']"
proof -
  have ids: "project_id (project_row i t d) = i" for i t d
    by (simp add: project_row_def)
  show ?thesis
    by (simp add: handleDelete_start_def handleDelete_done_def manager_initial_def ids)
qed

section \<open>Properties of the project form\<close>

subsection \<open>Splitting and trimming\<close>


















section \<open>Properties of the article page\<close>





end
